theory Spec2Isabelle
  imports Complex_Main "HOL-Library.Log_Nat"
begin

section \<open>Semi-monthly budget: dates and paycheck periods\<close>

text \<open>
  The budget application assigns every recurring expense to one of the two paychecks of
  a month. Days of the month, years and month indices are JavaScript numbers holding
  integers; they are \<^typ>\<open>int\<close> here. Money amounts are JavaScript numbers, that is
  IEEE doubles: every addition rounds its exact result to the nearest double.
\<close>

subsection \<open>The calendar\<close>

text \<open>
  Modelled from the spec: \<open>getDaysInMonth\<close> is imported from the date-fns package and
  is not among the sources; the spec calls it \<open>daysInMonth(year, monthIndex)\<close>, the number
  of days of that month. The code calls it on \<open>new Date(year, monthIndex, 1)\<close>, so the
  definition takes the two arguments of that constructor and follows it: a year from 0
  to 99 means 1900 + year, and a month index outside 0..11 carries into the year. The
  result is the length of the month in the Gregorian calendar (February has 29 days in
  a leap year). Years beyond the range of a JavaScript Date (about 270000 years around
  1970) are not distinguished.
\<close>

definition getDaysInMonth :: "int \<Rightarrow> int \<Rightarrow> int" where
  "getDaysInMonth year monthIndex =
     (let y = (if 0 \<le> year \<and> year \<le> 99 then 1900 + year else year) + monthIndex div 12;
          m = monthIndex mod 12
      in if m = 1
         then (if y mod 4 = 0 \<and> (y mod 100 \<noteq> 0 \<or> y mod 400 = 0) then 29 else 28)
         else if m = 3 \<or> m = 5 \<or> m = 8 \<or> m = 10 then 30
         else 31)"

subsection \<open>clampDay and assignToPaycheck\<close>

text \<open>
  \<^verbatim>\<open>
  function clampDay(day, year, monthIndex) {
    const dim = getDaysInMonth(new Date(year, monthIndex, 1));
    return Math.min(Math.max(1, day), dim);
  }
  \<close>
\<close>

definition clampDay :: "int \<Rightarrow> int \<Rightarrow> int \<Rightarrow> int" where
  "clampDay day year monthIndex =
     (let dim = getDaysInMonth year monthIndex in min (max 1 day) dim)"

text \<open>
  \<^verbatim>\<open>
  function assignToPaycheck(dueDay, p1, p2, year, monthIndex) {
    const d1 = clampDay(p1, year, monthIndex);
    const d2 = clampDay(p2, year, monthIndex);
    const first = Math.min(d1, d2);
    const second = Math.max(d1, d2);
    if (dueDay > first && dueDay <= second) return 1;
    if (dueDay > second || dueDay <= first) return 2;
  }
  \<close>
  Falling off the end of the function returns \<open>undefined\<close>, which is \<open>None\<close>.
\<close>

definition assignToPaycheck :: "int \<Rightarrow> int \<Rightarrow> int \<Rightarrow> int \<Rightarrow> int \<Rightarrow> int option" where
  "assignToPaycheck dueDay p1 p2 year monthIndex =
     (let d1 = clampDay p1 year monthIndex;
          d2 = clampDay p2 year monthIndex;
          first = min d1 d2;
          second = max d1 d2
      in if dueDay > first \<and> dueDay \<le> second then Some 1
         else if dueDay > second \<or> dueDay \<le> first then Some 2
         else None)"

section \<open>JavaScript numbers\<close>

text \<open>
  A JavaScript number is a finite double or one of the three special values. A finite
  double is given by its exact value, a rational; the sign of zero is not distinguished.
\<close>

datatype number = Fin rat | PosInfinity | NegInfinity | NaN

fun isFinite :: "number \<Rightarrow> bool" where
  "isFinite (Fin q) = True"
| "isFinite n = False"

fun isInteger :: "number \<Rightarrow> bool" where
  "isInteger (Fin q) = (rat_of_int \<lfloor>q\<rfloor> = q)"
| "isInteger n = False"

text \<open>The comparison \<open>a <= b\<close> of two numbers: false as soon as one of them is NaN.\<close>

fun js_le :: "number \<Rightarrow> number \<Rightarrow> bool" where
  "js_le NaN b = False"
| "js_le a NaN = False"
| "js_le NegInfinity b = True"
| "js_le a PosInfinity = True"
| "js_le (Fin a) (Fin b) = (a \<le> b)"
| "js_le a b = False"

text \<open>The comparison \<open>a < b\<close>.\<close>

fun js_lt :: "number \<Rightarrow> number \<Rightarrow> bool" where
  "js_lt NaN b = False"
| "js_lt a NaN = False"
| "js_lt PosInfinity b = False"
| "js_lt a NegInfinity = False"
| "js_lt (Fin a) (Fin b) = (a < b)"
| "js_lt a b = True"

text \<open>
  The exact value of a finite number, and the integer that a number is when it passed
  \<open>Number.isInteger\<close>. The second equations give a value to the special numbers, on
  which no statement below relies.
\<close>

fun toRat :: "number \<Rightarrow> rat" where
  "toRat (Fin q) = q"
| "toRat n = 0"

fun toInt :: "number \<Rightarrow> int" where
  "toInt (Fin q) = \<lfloor>q\<rfloor>"
| "toInt n = 0"

text \<open>
  Rounding an exact result to a double (binary64, round to nearest, ties to even).
  \<open>roundEven\<close> rounds a rational to the nearest integer, a tie to the even one.
  \<open>exponent x\<close> is, for positive \<open>x\<close>, the integer \<open>e\<close> with \<open>2^e \<le> x < 2^(e+1)\<close>. A
  double has 53 significant bits, so the doubles around \<open>x\<close> are the multiples of
  \<open>2^(e-52)\<close>, and of \<open>2^(-1074)\<close> below the normal range; a rounded result of \<open>2^1024\<close> or
  more overflows to infinity.
\<close>

definition roundEven :: "rat \<Rightarrow> int" where
  "roundEven x =
     (let f = \<lfloor>x\<rfloor>; r = x - rat_of_int f
      in if r < 1 / 2 then f else if 1 / 2 < r then f + 1 else if even f then f else f + 1)"

definition exponent :: "rat \<Rightarrow> int" where
  "exponent x =
     (let k = bitlen (fst (quotient_of x)) - bitlen (snd (quotient_of x))
      in if 2 powi k \<le> x then k else k - 1)"

definition roundDouble :: "rat \<Rightarrow> number" where
  "roundDouble x =
     (if x = 0 then Fin 0
      else let a = \<bar>x\<bar>;
               u = max (exponent a - 52) (- 1074);
               r = rat_of_int (roundEven (a / 2 powi u)) * 2 powi u
           in if 2 powi 1024 \<le> r then (if 0 < x then PosInfinity else NegInfinity)
              else Fin (if 0 < x then r else - r))"

text \<open>The sum \<open>a + b\<close> of two numbers.\<close>

fun js_add :: "number \<Rightarrow> number \<Rightarrow> number" where
  "js_add NaN b = NaN"
| "js_add a NaN = NaN"
| "js_add PosInfinity NegInfinity = NaN"
| "js_add NegInfinity PosInfinity = NaN"
| "js_add PosInfinity b = PosInfinity"
| "js_add a PosInfinity = PosInfinity"
| "js_add NegInfinity b = NegInfinity"
| "js_add a NegInfinity = NegInfinity"
| "js_add (Fin a) (Fin b) = roundDouble (a + b)"

section \<open>Expenses, income and the per-month computation\<close>

text \<open>
  The records follow the JSDoc type definitions of the source (\<open>Expense\<close>,
  \<open>IncomeConfig\<close>, \<open>BudgetState\<close>). The field \<open>id\<close> is called \<open>id_exp\<close>,
  since \<open>id\<close> is the identity function of HOL.
\<close>

record Expense =
  id_exp :: string
  name :: string
  amount :: number
  dueDay :: int
  category :: string

record IncomeConfig =
  paycheckDays :: "int \<times> int"
  netPerPaycheck :: number
  extras :: number

record BudgetState =
  expenses :: "Expense list"
  income :: IncomeConfig

text \<open>An element of \<open>assigned\<close>: the expense with the added field \<open>paycheck\<close>.\<close>

record AssignedExpense = Expense +
  paycheck :: "int option"

text \<open>
  \<^verbatim>\<open>
  const paycheckDaysClamped = useMemo(() => {
    return [
      clampDay(income.paycheckDays[0], year, monthIndex),
      clampDay(income.paycheckDays[1], year, monthIndex),
    ];
  }, [income.paycheckDays, year, monthIndex]);
  \<close>
\<close>

definition paycheckDaysClamped :: "IncomeConfig \<Rightarrow> int \<Rightarrow> int \<Rightarrow> int \<times> int" where
  "paycheckDaysClamped inc year monthIndex =
     (clampDay (fst (paycheckDays inc)) year monthIndex,
      clampDay (snd (paycheckDays inc)) year monthIndex)"

text \<open>
  \<^verbatim>\<open>
  const assigned = useMemo(() => {
    return expenses.map((e) => ({
      ...e,
      paycheck: assignToPaycheck(e.dueDay, paycheckDaysClamped[0], paycheckDaysClamped[1],
                                 year, monthIndex),
    }));
  }, [expenses, paycheckDaysClamped, year, monthIndex]);
  \<close>
\<close>

definition withPaycheck :: "int \<times> int \<Rightarrow> int \<Rightarrow> int \<Rightarrow> Expense \<Rightarrow> AssignedExpense" where
  "withPaycheck pdc year monthIndex e =
     \<lparr>id_exp = id_exp e, name = name e, amount = amount e, dueDay = dueDay e,
      category = category e,
      paycheck = assignToPaycheck (dueDay e) (fst pdc) (snd pdc) year monthIndex\<rparr>"

definition assigned :: "BudgetState \<Rightarrow> int \<Rightarrow> int \<Rightarrow> AssignedExpense list" where
  "assigned state year monthIndex =
     map (withPaycheck (paycheckDaysClamped (income state) year monthIndex) year monthIndex)
       (expenses state)"

text \<open>
  \<^verbatim>\<open>
  const p1Items = assigned.filter((e) => e.paycheck === 1);
  const p2Items = assigned.filter((e) => e.paycheck === 2);
  const p1Total = p1Items.reduce((s, e) => s + e.amount, 0);
  const p2Total = p2Items.reduce((s, e) => s + e.amount, 0);
  \<close>
\<close>

definition p1Items :: "BudgetState \<Rightarrow> int \<Rightarrow> int \<Rightarrow> AssignedExpense list" where
  "p1Items state year monthIndex =
     filter (\<lambda>e. paycheck e = Some 1) (assigned state year monthIndex)"

definition p2Items :: "BudgetState \<Rightarrow> int \<Rightarrow> int \<Rightarrow> AssignedExpense list" where
  "p2Items state year monthIndex =
     filter (\<lambda>e. paycheck e = Some 2) (assigned state year monthIndex)"

definition p1Total :: "BudgetState \<Rightarrow> int \<Rightarrow> int \<Rightarrow> number" where
  "p1Total state year monthIndex =
     foldl (\<lambda>s e. js_add s (amount e)) (Fin 0) (p1Items state year monthIndex)"

definition p2Total :: "BudgetState \<Rightarrow> int \<Rightarrow> int \<Rightarrow> number" where
  "p2Total state year monthIndex =
     foldl (\<lambda>s e. js_add s (amount e)) (Fin 0) (p2Items state year monthIndex)"

text \<open>
  The exact sum of the amounts of a list of expenses, and the amounts on which the
  additions of the code do not round: the whole numbers from 0 on.
\<close>

definition exactSum :: "'a Expense_scheme list \<Rightarrow> rat" where
  "exactSum xs = sum_list (map (\<lambda>e. toRat (amount e)) xs)"

definition wholeAmount :: "number \<Rightarrow> bool" where
  "wholeAmount a = (isInteger a \<and> js_le (Fin 0) a)"

section \<open>Adding an expense\<close>

text \<open>
  \<^verbatim>\<open>
  function addExpense(exp) {
    setState((s) => ({ ...s, expenses: [...s.expenses, exp] }));
  }
  \<close>
\<close>

definition addExpense :: "Expense \<Rightarrow> BudgetState \<Rightarrow> BudgetState" where
  "addExpense expense s = s\<lparr>expenses := expenses s @ [expense]\<rparr>"

text \<open>
  \<^verbatim>\<open>
  function submit() {
    const n = name.trim();
    const a = Number(amount);
    const d = Number(dueDay);
    if (!n || !Number.isFinite(a) || a <= 0 || !Number.isInteger(d)) return;
    onAdd({ id: uid(), name: n, amount: a, dueDay: d, category });
    ...
  }
  \<close>
  The dialog is used with \<open>onAdd = addExpense\<close>. The arguments \<open>n\<close>, \<open>a\<close> and \<open>d\<close> are
  the values of \<open>name.trim()\<close>, \<open>Number(amount)\<close> and \<open>Number(dueDay)\<close>, which the
  platform computes from the three text fields, and \<open>newId\<close> is the string that \<open>uid()\<close>
  draws from \<open>Math.random\<close>.
\<close>

definition submit ::
  "string \<Rightarrow> number \<Rightarrow> number \<Rightarrow> string \<Rightarrow> string \<Rightarrow> BudgetState \<Rightarrow> BudgetState" where
  "submit n a d categoryField newId s =
     (if n = [] \<or> \<not> isFinite a \<or> js_le a (Fin 0) \<or> \<not> isInteger d then s
      else addExpense
             \<lparr>id_exp = newId, name = n, amount = a, dueDay = toInt d,
              category = categoryField\<rparr> s)"

text \<open>
  The invariant of the expense collection, in the words of the specification:
  every amount is positive, every due day lies in 1..31, and the ids are unique.
\<close>

definition expense_invariant :: "BudgetState \<Rightarrow> bool" where
  "expense_invariant s =
     ((\<forall>e \<in> set (expenses s). js_lt (Fin 0) (amount e) \<and> 1 \<le> dueDay e \<and> dueDay e \<le> 31)
      \<and> distinct (map id_exp (expenses s)))"

section \<open>Persistence\<close>

subsection \<open>JavaScript values and JSON\<close>

text \<open>
  The values that \<open>JSON.parse\<close> builds, with the numbers of JavaScript. An object is
  the list of its properties in their order; the names of the properties of an object
  are distinct.
\<close>

datatype jsval =
    JNull
  | JBool bool
  | JNum number
  | JStr string
  | JArr "jsval list"
  | JObj "(string \<times> jsval) list"

datatype js_error = Error string | SyntaxError | TypeError

text \<open>The truth value of a value in a condition (\<open>!v\<close> is its negation).\<close>

fun truthy :: "jsval \<Rightarrow> bool" where
  "truthy JNull = False"
| "truthy (JBool b) = b"
| "truthy (JNum n) = (n \<noteq> Fin 0 \<and> n \<noteq> NaN)"
| "truthy (JStr s) = (s \<noteq> [])"
| "truthy (JArr vs) = True"
| "truthy (JObj fs) = True"

text \<open>
  Reading the property \<open>income\<close> or \<open>expenses\<close> of a value: a TypeError on \<open>null\<close>,
  the property of an object when it has it, and \<open>undefined\<close> (\<open>None\<close>) otherwise;
  primitive values and arrays have no property of these names.
\<close>

fun getProp :: "jsval \<Rightarrow> string \<Rightarrow> js_error + jsval option" where
  "getProp JNull k = Inl TypeError"
| "getProp (JObj fs) k = Inr (map_of fs k)"
| "getProp v k = Inr None"

fun truthyProp :: "jsval option \<Rightarrow> bool" where
  "truthyProp None = False"
| "truthyProp (Some v) = truthy v"

fun isArray :: "jsval option \<Rightarrow> bool" where
  "isArray (Some (JArr vs)) = True"
| "isArray v = False"

text \<open>
  A text is represented by what \<open>JSON.parse\<close> makes of it: the empty string, a
  non-empty string that \<open>JSON.parse\<close> rejects, or a JSON document with the value it
  parses to. \<open>JSON.stringify\<close> writes the document of a value; a number that is not
  finite is written as \<open>null\<close>.
\<close>

datatype jstext = EmptyText | Malformed | Document jsval

fun JSON_parse :: "jstext \<Rightarrow> js_error + jsval" where
  "JSON_parse (Document v) = Inr v"
| "JSON_parse t = Inl SyntaxError"

primrec serialized :: "jsval \<Rightarrow> jsval" where
  "serialized JNull = JNull"
| "serialized (JBool b) = JBool b"
| "serialized (JNum n) = (if isFinite n then JNum n else JNull)"
| "serialized (JStr s) = JStr s"
| "serialized (JArr vs) = JArr (map serialized vs)"
| "serialized (JObj fs) = JObj (map (map_prod id serialized) fs)"

definition JSON_stringify :: "jsval \<Rightarrow> jstext" where
  "JSON_stringify v = Document (serialized v)"

subsection \<open>loadState, saveState and import\<close>

type_synonym storage = "string \<Rightarrow> jstext option"

definition STORAGE_KEY :: string where
  "STORAGE_KEY = ''semiMonthlyBudget.v1''"

text \<open>
  The dataset of the \<open>catch\<close> branch of \<open>loadState\<close>. Its seven ids come from seven
  calls of \<open>uid()\<close>; \<open>uid k\<close> is the string drawn by the \<open>k\<close>-th call.
\<close>

definition defaultExpense :: "string \<Rightarrow> string \<Rightarrow> rat \<Rightarrow> int \<Rightarrow> string \<Rightarrow> jsval" where
  "defaultExpense i n a d c =
     JObj [(''id'', JStr i), (''name'', JStr n), (''amount'', JNum (Fin a)),
           (''dueDay'', JNum (Fin (rat_of_int d))), (''category'', JStr c)]"

definition defaultState :: "(nat \<Rightarrow> string) \<Rightarrow> jsval" where
  "defaultState uid =
     JObj [(''income'',
            JObj [(''paycheckDays'', JArr [JNum (Fin 1), JNum (Fin 16)]),
                  (''netPerPaycheck'', JNum (Fin 20000)),
                  (''extras'', JNum (Fin 0))]),
           (''expenses'',
            JArr [defaultExpense (uid 0) ''Rent'' 10000 1 ''fixed'',
                  defaultExpense (uid 1) ''Electric'' 2500 6 ''fixed'',
                  defaultExpense (uid 2) ''Water'' 600 10 ''fixed'',
                  defaultExpense (uid 3) ''Groceries'' 6000 18 ''variable'',
                  defaultExpense (uid 4) ''Mobile Plan'' 999 20 ''fixed'',
                  defaultExpense (uid 5) ''Debt Snowball'' 3000 25 ''debt'',
                  defaultExpense (uid 6) ''Emergency Fund'' 2000 30 ''savings''])]"

text \<open>
  \<^verbatim>\<open>
  function loadState() {
    try {
      const raw = localStorage.getItem(STORAGE_KEY);
      if (!raw) throw new Error("empty");
      const parsed = JSON.parse(raw);
      if (!parsed.income || !Array.isArray(parsed.expenses)) throw new Error("invalid");
      return parsed;
    } catch {
      return { income: ..., expenses: [...] };
    }
  }
  \<close>
  \<open>loadState_try\<close> is the body of the \<open>try\<close>: \<open>Inl\<close> is an exception thrown in it.
\<close>

definition loadState_try :: "storage \<Rightarrow> js_error + jsval" where
  "loadState_try localStorage =
     (case localStorage STORAGE_KEY of
        None \<Rightarrow> Inl (Error ''empty'')
      | Some raw \<Rightarrow>
          if raw = EmptyText then Inl (Error ''empty'')
          else (case JSON_parse raw of
                  Inl err \<Rightarrow> Inl err
                | Inr parsed \<Rightarrow>
                    (case getProp parsed ''income'' of
                       Inl err \<Rightarrow> Inl err
                     | Inr inc \<Rightarrow>
                         if \<not> truthyProp inc then Inl (Error ''invalid'')
                         else (case getProp parsed ''expenses'' of
                                 Inl err \<Rightarrow> Inl err
                               | Inr ex \<Rightarrow>
                                   if \<not> isArray ex then Inl (Error ''invalid'')
                                   else Inr parsed))))"

definition loadState :: "storage \<Rightarrow> (nat \<Rightarrow> string) \<Rightarrow> jsval" where
  "loadState localStorage uid =
     (case loadState_try localStorage of
        Inl err \<Rightarrow> defaultState uid
      | Inr parsed \<Rightarrow> parsed)"

text \<open>
  \<^verbatim>\<open>
  function saveState(state) {
    localStorage.setItem(STORAGE_KEY, JSON.stringify(state));
  }
  \<close>
\<close>

definition saveState :: "jsval \<Rightarrow> storage \<Rightarrow> storage" where
  "saveState state localStorage = localStorage(STORAGE_KEY \<mapsto> JSON_stringify state)"

text \<open>
  \<^verbatim>\<open>
  function onImport(e) {
    const file = e.target.files?.[0];
    if (!file) return;
    const reader = new FileReader();
    reader.onload = () => {
      try {
        const parsed = JSON.parse(String(reader.result));
        if (!parsed || !parsed.income || !Array.isArray(parsed.expenses))
          throw new Error("Invalid file");
        setState(parsed);
      } catch (err) {
        alert("Import failed: " + (err?.message || "Invalid file"));
      }
    };
    reader.readAsText(file);
  }
  \<close>
  \<open>onImport_try\<close> is the body of the \<open>try\<close> up to \<open>setState\<close>. \<open>onImport\<close> takes
  the text of the chosen file (\<open>None\<close> when no file was chosen) and the state, and
  returns the state afterwards with the error that the alert reports, if any.
\<close>

definition onImport_try :: "jstext \<Rightarrow> js_error + jsval" where
  "onImport_try result =
     (case JSON_parse result of
        Inl err \<Rightarrow> Inl err
      | Inr parsed \<Rightarrow>
          if \<not> truthy parsed then Inl (Error ''Invalid file'')
          else (case getProp parsed ''income'' of
                  Inl err \<Rightarrow> Inl err
                | Inr inc \<Rightarrow>
                    if \<not> truthyProp inc then Inl (Error ''Invalid file'')
                    else (case getProp parsed ''expenses'' of
                            Inl err \<Rightarrow> Inl err
                          | Inr ex \<Rightarrow>
                              if \<not> isArray ex then Inl (Error ''Invalid file'')
                              else Inr parsed)))"

definition onImport :: "jstext option \<Rightarrow> jsval \<Rightarrow> jsval \<times> js_error option" where
  "onImport file state =
     (case file of
        None \<Rightarrow> (state, None)
      | Some result \<Rightarrow>
          (case onImport_try result of
             Inl err \<Rightarrow> (state, Some err)
           | Inr parsed \<Rightarrow> (parsed, None)))"

subsection \<open>The shapes named by the specification\<close>

text \<open>
  The required shape of a stored or imported document, in the words of the
  specification: the field \<open>income\<close> is present and truthy, and the field \<open>expenses\<close>
  is an array.
\<close>

fun requiredShape :: "jsval \<Rightarrow> bool" where
  "requiredShape (JObj fs) =
     ((case map_of fs ''income'' of Some i \<Rightarrow> truthy i | None \<Rightarrow> False)
      \<and> (case map_of fs ''expenses'' of Some (JArr es) \<Rightarrow> True | _ \<Rightarrow> False))"
| "requiredShape v = False"

text \<open>
  A well-formed budget state, in the words of the specification: an income object
  with a pair \<open>paycheckDays\<close> and numbers \<open>netPerPaycheck\<close> and \<open>extras\<close>, and an array
  of expenses, each with strings \<open>id\<close>, \<open>name\<close> and \<open>category\<close>, a number \<open>amount\<close>
  and an integer \<open>dueDay\<close>.
\<close>

fun isNumber :: "jsval option \<Rightarrow> bool" where
  "isNumber (Some (JNum n)) = True"
| "isNumber v = False"

fun isString :: "jsval option \<Rightarrow> bool" where
  "isString (Some (JStr s)) = True"
| "isString v = False"

fun isIntegerProp :: "jsval option \<Rightarrow> bool" where
  "isIntegerProp (Some (JNum n)) = isInteger n"
| "isIntegerProp v = False"

fun isNumberPair :: "jsval option \<Rightarrow> bool" where
  "isNumberPair (Some (JArr [JNum a, JNum b])) = True"
| "isNumberPair v = False"

fun wellFormedIncome :: "jsval \<Rightarrow> bool" where
  "wellFormedIncome (JObj fs) =
     (isNumberPair (map_of fs ''paycheckDays'') \<and> isNumber (map_of fs ''netPerPaycheck'')
      \<and> isNumber (map_of fs ''extras''))"
| "wellFormedIncome v = False"

fun wellFormedExpense :: "jsval \<Rightarrow> bool" where
  "wellFormedExpense (JObj fs) =
     (isString (map_of fs ''id'') \<and> isString (map_of fs ''name'')
      \<and> isNumber (map_of fs ''amount'') \<and> isIntegerProp (map_of fs ''dueDay'')
      \<and> isString (map_of fs ''category''))"
| "wellFormedExpense v = False"

fun wellFormedState :: "jsval \<Rightarrow> bool" where
  "wellFormedState (JObj fs) =
     ((case map_of fs ''income'' of Some i \<Rightarrow> wellFormedIncome i | None \<Rightarrow> False)
      \<and> (case map_of fs ''expenses'' of
            Some (JArr es) \<Rightarrow> list_all wellFormedExpense es
          | _ \<Rightarrow> False))"
| "wellFormedState v = False"

text \<open>All numbers inside a value are finite.\<close>

primrec finiteNumbers :: "jsval \<Rightarrow> bool" where
  "finiteNumbers JNull = True"
| "finiteNumbers (JBool b) = True"
| "finiteNumbers (JNum n) = isFinite n"
| "finiteNumbers (JStr s) = True"
| "finiteNumbers (JArr vs) = list_all finiteNumbers vs"
| "finiteNumbers (JObj fs) = list_all (pred_prod (\<lambda>k. True) finiteNumbers) fs"

text \<open>The JavaScript object of a typed budget state.\<close>

definition jsExpense :: "Expense \<Rightarrow> jsval" where
  "jsExpense e =
     JObj [(''id'', JStr (id_exp e)), (''name'', JStr (name e)),
           (''amount'', JNum (amount e)),
           (''dueDay'', JNum (Fin (rat_of_int (dueDay e)))),
           (''category'', JStr (category e))]"

definition jsIncome :: "IncomeConfig \<Rightarrow> jsval" where
  "jsIncome i =
     JObj [(''paycheckDays'',
            JArr [JNum (Fin (rat_of_int (fst (paycheckDays i)))),
                  JNum (Fin (rat_of_int (snd (paycheckDays i))))]),
           (''netPerPaycheck'', JNum (netPerPaycheck i)),
           (''extras'', JNum (extras i))]"

definition jsState :: "BudgetState \<Rightarrow> jsval" where
  "jsState s =
     JObj [(''expenses'', JArr (map jsExpense (expenses s))), (''income'', jsIncome (income s))]"

section \<open>Example data\<close>

text \<open>
  A typed state with three of the expenses of the default dataset, and a stored
  document whose only expense has the amount \<open>Infinity\<close> (\<open>JSON.parse\<close> reads
  \<open>1e999\<close> as \<open>Infinity\<close>, so an imported file can bring it into the state).
\<close>

definition exampleState :: BudgetState where
  "exampleState =
     \<lparr>expenses =
        [\<lparr>id_exp = ''k3f9x2a'', name = ''Rent'', amount = Fin 10000, dueDay = 1,
          category = ''fixed''\<rparr>,
         \<lparr>id_exp = ''p0q8w1z'', name = ''Water'', amount = Fin 600, dueDay = 10,
          category = ''fixed''\<rparr>,
         \<lparr>id_exp = ''m7n2b5c'', name = ''Emergency Fund'', amount = Fin 2000, dueDay = 30,
          category = ''savings''\<rparr>],
      income = \<lparr>paycheckDays = (1, 16), netPerPaycheck = Fin 20000, extras = Fin 0\<rparr>\<rparr>"

definition overflowState :: jsval where
  "overflowState =
     JObj [(''income'',
            JObj [(''paycheckDays'', JArr [JNum (Fin 1), JNum (Fin 16)]),
                  (''netPerPaycheck'', JNum (Fin 20000)),
                  (''extras'', JNum (Fin 0))]),
           (''expenses'',
            JArr [JObj [(''id'', JStr ''k3f9x2a''), (''name'', JStr ''Rent''),
                        (''amount'', JNum PosInfinity), (''dueDay'', JNum (Fin 1)),
                        (''category'', JStr ''fixed'')]])]"

text \<open>
  The state with paydays 1 and 30 and one expense due on day 30: in February the
  second payday is clamped to the last day of the month.
\<close>

definition februaryState :: BudgetState where
  "februaryState =
     \<lparr>expenses =
        [\<lparr>id_exp = ''m7n2b5c'', name = ''Emergency Fund'', amount = Fin 2000, dueDay = 30,
          category = ''savings''\<rparr>],
      income = \<lparr>paycheckDays = (1, 30), netPerPaycheck = Fin 20000, extras = Fin 0\<rparr>\<rparr>"

text \<open>
  A state with the amounts 0.1, 0.1 and 1.1, due on days 5, 20 and 6. The doubles that
  these three literals denote are \<open>3602879701896397 / 2^55\<close> (twice) and
  \<open>2476979795053773 / 2^51\<close>, with \<open>2^55 = 36028797018963968\<close> and
  \<open>2^51 = 2251799813685248\<close>.
\<close>

definition decimalState :: BudgetState where
  "decimalState =
     \<lparr>expenses =
        [\<lparr>id_exp = ''a1b2c3d'', name = ''Candy'', amount = Fin (3602879701896397 / 36028797018963968),
          dueDay = 5, category = ''variable''\<rparr>,
         \<lparr>id_exp = ''e4f5g6h'', name = ''Gum'', amount = Fin (3602879701896397 / 36028797018963968),
          dueDay = 20, category = ''variable''\<rparr>,
         \<lparr>id_exp = ''i7j8k9l'', name = ''Tea'', amount = Fin (2476979795053773 / 2251799813685248),
          dueDay = 6, category = ''variable''\<rparr>],
      income = \<lparr>paycheckDays = (1, 16), netPerPaycheck = Fin 20000, extras = Fin 0\<rparr>\<rparr>"

section \<open>Properties of the calendar and of clamping\<close>

lemma getDaysInMonth_bounds: "28 \<le> getDaysInMonth y m \<and> getDaysInMonth y m \<le> 31"
  by (simp add: getDaysInMonth_def Let_def)

lemma getDaysInMonth_pos: "1 \<le> getDaysInMonth y m"
  using getDaysInMonth_bounds [of y m] by linarith

lemma getDaysInMonth_feb_2023: "getDaysInMonth 2023 1 = 28"
  by (simp add: getDaysInMonth_def)

lemma getDaysInMonth_jan_2025: "getDaysInMonth 2025 0 = 31"
  by (simp add: getDaysInMonth_def)

lemma clampDay_range: "1 \<le> clampDay d y m \<and> clampDay d y m \<le> getDaysInMonth y m"
  using getDaysInMonth_pos [of y m] by (simp add: clampDay_def Let_def)

lemma clampDay_id: "1 \<le> d \<Longrightarrow> d \<le> getDaysInMonth y m \<Longrightarrow> clampDay d y m = d"
  by (simp add: clampDay_def Let_def)

lemma clampDay_idem: "clampDay (clampDay d y m) y m = clampDay d y m"
  using clampDay_range [of d y m] by (simp add: clampDay_id)

text \<open>
  Claim C5. For every integer day \<open>d\<close>, year and month index, \<open>clampDay\<close> computes
  \<open>max(1, min(d, daysInMonth))\<close>; its result lies between 1 and the length of the month,
  and it is \<open>d\<close> itself whenever \<open>d\<close> is a day of that month.
\<close>

theorem clampDay_spec:
  "clampDay d y m = max 1 (min d (getDaysInMonth y m))
   \<and> 1 \<le> clampDay d y m \<and> clampDay d y m \<le> getDaysInMonth y m
   \<and> (1 \<le> d \<and> d \<le> getDaysInMonth y m \<longrightarrow> clampDay d y m = d)"
proof -
  have dim: "1 \<le> getDaysInMonth y m" by (rule getDaysInMonth_pos)
  have "min (max 1 d) (getDaysInMonth y m) = max 1 (min d (getDaysInMonth y m))"
    using dim by linarith
  then have eq: "clampDay d y m = max 1 (min d (getDaysInMonth y m))"
    by (simp add: clampDay_def Let_def)
  show ?thesis
    using eq clampDay_range [of d y m] clampDay_id [of d y m] by blast
qed

theorem clampDay_spec_witness:
  "clampDay 30 2023 1 = 28 \<and> clampDay 0 2023 1 = 1 \<and> clampDay 16 2023 1 = 16
   \<and> (1 \<le> (16::int) \<and> 16 \<le> getDaysInMonth 2023 1)"
proof -
  have a: "clampDay 30 2023 1 = 28"
    using clampDay_spec [of 30 2023 1] by (simp add: getDaysInMonth_feb_2023)
  have b: "clampDay 0 2023 1 = 1"
    using clampDay_spec [of 0 2023 1] by (simp add: getDaysInMonth_feb_2023)
  have c: "clampDay 16 2023 1 = 16 \<and> (1 \<le> (16::int) \<and> 16 \<le> getDaysInMonth 2023 1)"
    using clampDay_spec [of 16 2023 1] by (simp add: getDaysInMonth_feb_2023)
  from a b c show ?thesis by blast
qed

section \<open>The paycheck decision\<close>

lemma assignToPaycheck_total:
  "assignToPaycheck d p1 p2 y m = Some 1 \<or> assignToPaycheck d p1 p2 y m = Some 2"
  by (simp add: assignToPaycheck_def Let_def) linarith

lemma assignToPaycheck_clamped:
  assumes "1 \<le> p1" "p1 \<le> getDaysInMonth y m" "1 \<le> p2" "p2 \<le> getDaysInMonth y m"
  shows "assignToPaycheck d p1 p2 y m
           = (if min p1 p2 < d \<and> d \<le> max p1 p2 then Some 1 else Some 2)"
proof -
  have "clampDay p1 y m = p1" "clampDay p2 y m = p2"
    using assms by (simp_all add: clampDay_id)
  then show ?thesis
    by (simp add: assignToPaycheck_def Let_def) linarith
qed

text \<open>
  Claim C1. For every due day from 1 to 31 and every pair of clamped paydays
  \<open>p1\<close>, \<open>p2\<close> (each between 1 and the length of the month), \<open>assignToPaycheck\<close>
  returns one of the labels 1 and 2, and it returns 1 exactly when
  \<open>min p1 p2 < due\<close> and \<open>due \<le> max p1 p2\<close>.
\<close>

theorem assignToPaycheck_label:
  assumes "1 \<le> due" "due \<le> 31"
    and "1 \<le> p1" "p1 \<le> getDaysInMonth year monthIndex"
    and "1 \<le> p2" "p2 \<le> getDaysInMonth year monthIndex"
  shows "assignToPaycheck due p1 p2 year monthIndex \<in> {Some 1, Some 2}
         \<and> (assignToPaycheck due p1 p2 year monthIndex = Some 1
              \<longleftrightarrow> min p1 p2 < due \<and> due \<le> max p1 p2)
         \<and> (assignToPaycheck due p1 p2 year monthIndex = Some 2
              \<longleftrightarrow> \<not> (min p1 p2 < due \<and> due \<le> max p1 p2))"
  using assignToPaycheck_clamped [OF assms(3-6), of due] by simp

theorem assignToPaycheck_label_witness:
  "assignToPaycheck 10 1 16 2025 0 = Some 1 \<and> assignToPaycheck 1 1 16 2025 0 = Some 2
   \<and> assignToPaycheck 20 16 1 2025 0 = Some 2"
proof -
  have dim: "(1::int) \<le> getDaysInMonth 2025 0" "16 \<le> getDaysInMonth 2025 0"
    by (simp_all add: getDaysInMonth_jan_2025)
  have a: "assignToPaycheck 10 1 16 2025 0 = Some 1"
    using assignToPaycheck_label [of 10 1 2025 0 16] dim by simp
  have b: "assignToPaycheck 1 1 16 2025 0 = Some 2"
    using assignToPaycheck_label [of 1 1 2025 0 16] dim by simp
  have c: "assignToPaycheck 20 16 1 2025 0 = Some 2"
    using assignToPaycheck_label [of 20 16 2025 0 1] dim by simp
  from a b c show ?thesis by blast
qed

text \<open>
  Claim C2, as stated: the first payday is in period 2 and the second payday is in
  period 1, for all pairs of clamped paydays, equal pairs included. This fails when
  the two paydays coincide: then \<open>first = second\<close>, period 1 is empty and the day belongs
  to period 2.
\<close>

theorem assignToPaycheck_boundary_counterexample:
  "(1::int) \<le> 15 \<and> 15 \<le> getDaysInMonth 2025 0
   \<and> assignToPaycheck (max 15 15) 15 15 2025 0 = Some 2
   \<and> assignToPaycheck (max 15 15) 15 15 2025 0 \<noteq> Some 1"
  by (simp add: assignToPaycheck_def clampDay_def getDaysInMonth_jan_2025)

text \<open>
  Claim C2, amended. For every pair of clamped paydays the first payday
  \<open>min p1 p2\<close> is assigned to paycheck 2; the second payday \<open>max p1 p2\<close> is
  assigned to paycheck 1 when the paydays differ, and to paycheck 2 when they are equal.
\<close>

theorem assignToPaycheck_boundary:
  assumes "1 \<le> p1" "p1 \<le> getDaysInMonth year monthIndex"
    and "1 \<le> p2" "p2 \<le> getDaysInMonth year monthIndex"
  shows "assignToPaycheck (min p1 p2) p1 p2 year monthIndex = Some 2
         \<and> (p1 \<noteq> p2 \<longrightarrow> assignToPaycheck (max p1 p2) p1 p2 year monthIndex = Some 1)
         \<and> (p1 = p2 \<longrightarrow> assignToPaycheck (max p1 p2) p1 p2 year monthIndex = Some 2)"
proof -
  have first: "assignToPaycheck (min p1 p2) p1 p2 year monthIndex = Some 2"
    using assignToPaycheck_clamped [OF assms, of "min p1 p2"] by simp
  have second: "assignToPaycheck (max p1 p2) p1 p2 year monthIndex
                  = (if p1 \<noteq> p2 then Some 1 else Some 2)"
    using assignToPaycheck_clamped [OF assms, of "max p1 p2"] by (simp add: min_def max_def)
  from first second show ?thesis by (auto split: if_splits)
qed

theorem assignToPaycheck_boundary_witness:
  "assignToPaycheck (min 16 1) 16 1 2025 0 = Some 2
   \<and> assignToPaycheck (max 16 1) 16 1 2025 0 = Some 1
   \<and> assignToPaycheck (max 15 15) 15 15 2025 0 = Some 2"
proof -
  have dim: "(1::int) \<le> getDaysInMonth 2025 0" "15 \<le> getDaysInMonth 2025 0"
    "16 \<le> getDaysInMonth 2025 0"
    by (simp_all add: getDaysInMonth_jan_2025)
  have a: "assignToPaycheck (min 16 1) 16 1 2025 0 = Some 2
           \<and> assignToPaycheck (max 16 1) 16 1 2025 0 = Some 1"
    using assignToPaycheck_boundary [of 16 2025 0 1] dim by simp
  have b: "assignToPaycheck (max 15 15) 15 15 2025 0 = Some 2"
    using assignToPaycheck_boundary [of 15 2025 0 15] dim by simp
  from a b show ?thesis by blast
qed

text \<open>
  Claim C10. For every due day, year, month index and integers \<open>p1\<close>, \<open>p2\<close>, the
  result of \<open>assignToPaycheck\<close> is the same when the paydays are clamped beforehand and
  when they are swapped.
\<close>

theorem assignToPaycheck_preclamp_swap:
  "assignToPaycheck due p1 p2 year monthIndex
     = assignToPaycheck due (clampDay p1 year monthIndex) (clampDay p2 year monthIndex)
         year monthIndex
   \<and> assignToPaycheck due p1 p2 year monthIndex
     = assignToPaycheck due p2 p1 year monthIndex"
proof -
  have pre: "assignToPaycheck due p1 p2 year monthIndex
     = assignToPaycheck due (clampDay p1 year monthIndex) (clampDay p2 year monthIndex)
         year monthIndex"
    by (simp only: assignToPaycheck_def clampDay_idem)
  have swap: "assignToPaycheck due p1 p2 year monthIndex
     = assignToPaycheck due p2 p1 year monthIndex"
    by (simp add: assignToPaycheck_def Let_def min.commute max.commute)
  from pre swap show ?thesis by (rule conjI)
qed

section \<open>Rounding to a double\<close>

lemma bitlen_powi:
  assumes "0 < n"
  shows "(2::rat) powi (bitlen n - 1) \<le> rat_of_int n \<and> rat_of_int n < 2 powi bitlen n"
proof -
  have b: "2 ^ nat (bitlen n - 1) \<le> n \<and> n < 2 ^ nat (bitlen n)"
    using assms by (rule bitlen_bounds)
  have pos: "1 \<le> bitlen n"
    using assms bitlen_eq_zero_iff [of n] bitlen_nonneg [of n] by linarith
  have lo: "(2::rat) powi (bitlen n - 1) = rat_of_int (2 ^ nat (bitlen n - 1))"
    using pos by (simp add: power_int_def)
  have hi: "(2::rat) powi bitlen n = rat_of_int (2 ^ nat (bitlen n))"
    using pos by (simp add: power_int_def)
  show ?thesis
    unfolding lo hi using b by (simp only: of_int_le_iff of_int_less_iff)
qed

text \<open>\<open>exponent\<close> is the binary exponent of a positive rational.\<close>

lemma exponent_bounds:
  assumes "0 < x"
  shows "2 powi exponent x \<le> x \<and> x < 2 powi (exponent x + 1)"
proof -
  obtain p q where pq: "quotient_of x = (p, q)" by (cases "quotient_of x")
  have q: "0 < q" using pq by (rule quotient_of_denom_pos)
  have x: "x = rat_of_int p / rat_of_int q" using pq by (rule quotient_of_div)
  have p: "0 < p"
    using assms q unfolding x by (simp add: zero_less_divide_iff)
  define k where "k = bitlen p - bitlen q"
  have bp: "(2::rat) powi (bitlen p - 1) \<le> rat_of_int p" "rat_of_int p < 2 powi bitlen p"
    using bitlen_powi [OF p] by simp_all
  have bq: "(2::rat) powi (bitlen q - 1) \<le> rat_of_int q" "rat_of_int q < 2 powi bitlen q"
    using bitlen_powi [OF q] by simp_all
  have qpos: "0 < rat_of_int q" using q by simp
  have upper: "x < 2 powi (k + 1)"
  proof -
    have "rat_of_int p < 2 powi (k + 1) * 2 powi (bitlen q - 1)"
      using bp(2) by (simp add: k_def flip: power_int_add)
    also have "\<dots> \<le> 2 powi (k + 1) * rat_of_int q"
      using bq(1) by (simp add: mult_left_mono)
    finally show ?thesis
      unfolding x using qpos by (simp add: pos_divide_less_eq)
  qed
  have lower: "2 powi (k - 1) < x"
  proof -
    have "2 powi (k - 1) * rat_of_int q < 2 powi (k - 1) * 2 powi bitlen q"
      using bq(2) by (simp add: mult_strict_left_mono)
    also have "\<dots> = 2 powi (bitlen p - 1)"
      by (simp add: k_def flip: power_int_add)
    also have "\<dots> \<le> rat_of_int p" by (rule bp(1))
    finally show ?thesis
      unfolding x using qpos by (simp add: pos_less_divide_eq)
  qed
  have e: "exponent x = (if 2 powi k \<le> x then k else k - 1)"
    by (simp add: exponent_def Let_def pq k_def)
  show ?thesis
  proof (cases "2 powi k \<le> x")
    case True
    with e upper show ?thesis by simp
  next
    case False
    with e lower show ?thesis by simp
  qed
qed

lemma roundEven_int: "roundEven (rat_of_int n) = n"
  by (simp add: roundEven_def)

text \<open>A whole number from 0 to \<open>2^53\<close> is a double: rounding leaves it as it is.\<close>

lemma roundDouble_whole:
  assumes "0 \<le> n" and "n \<le> 2 ^ 53"
  shows "roundDouble (rat_of_int n) = Fin (rat_of_int n)"
proof (cases "n = 0")
  case True
  then show ?thesis by (simp add: roundDouble_def)
next
  case False
  with assms have pos: "0 < rat_of_int n" by simp
  define e where "e = exponent (rat_of_int n)"
  have eb: "2 powi e \<le> rat_of_int n" "rat_of_int n < 2 powi (e + 1)"
    using exponent_bounds [OF pos] by (simp_all add: e_def)
  have one: "(1::rat) \<le> rat_of_int n" using False assms by simp
  have top: "rat_of_int n \<le> 2 powi 53"
  proof -
    have "rat_of_int n \<le> rat_of_int (2 ^ 53)" using assms(2) by (simp only: of_int_le_iff)
    then show ?thesis by simp
  qed
  have e0: "0 \<le> e"
  proof (rule ccontr)
    assume "\<not> 0 \<le> e"
    then have "e + 1 \<le> 0" by simp
    then have "(2::rat) powi (e + 1) \<le> 2 powi 0"
      by (rule power_int_increasing) simp
    with eb(2) one show False by simp
  qed
  have e53: "e \<le> 53"
  proof (rule ccontr)
    assume "\<not> e \<le> 53"
    then have "53 < e" by simp
    then have "(2::rat) powi 53 < 2 powi e"
      by (rule power_int_strict_increasing) simp
    with eb(1) top show False by linarith
  qed
  have small: "\<not> (2::rat) powi 1024 \<le> rat_of_int n"
  proof -
    have "(2::rat) powi 53 < 2 powi 1024"
      by (rule power_int_strict_increasing) simp_all
    with top show ?thesis by linarith
  qed
  have u: "max (e - 52) (- 1074) = e - 52" using e0 by simp
  have r: "rat_of_int (roundEven (rat_of_int n / 2 powi (e - 52))) * 2 powi (e - 52)
             = rat_of_int n"
  proof (cases "e \<le> 52")
    case True
    define d where "d = nat (52 - e)"
    have p: "(2::rat) powi (e - 52) = 1 / 2 ^ d"
      using True by (simp add: d_def power_int_def field_simps)
    have "rat_of_int n / 2 powi (e - 52) = rat_of_int (n * 2 ^ d)"
      by (simp add: p)
    then have "roundEven (rat_of_int n / 2 powi (e - 52)) = n * 2 ^ d"
      by (simp only: roundEven_int)
    then show ?thesis by (simp add: p)
  next
    case False
    with e53 have e: "e = 53" by simp
    have "(2::rat) powi 53 \<le> rat_of_int n" using eb(1) e by simp
    with top have n: "rat_of_int n = 2 powi 53" by simp
    have "rat_of_int n / 2 powi (e - 52) = rat_of_int (2 ^ 52)"
      by (simp add: n e)
    then have "roundEven (rat_of_int n / 2 powi (e - 52)) = 2 ^ 52"
      by (simp only: roundEven_int)
    then show ?thesis by (simp add: n e)
  qed
  show ?thesis
    using False pos small r u
    by (simp add: roundDouble_def Let_def e_def)
qed

lemma exponent_unique:
  assumes "2 powi e \<le> x" and "x < 2 powi (e + 1)"
  shows "exponent x = e"
proof -
  have "(0::rat) < 2 powi e" by simp
  with assms(1) have pos: "0 < x" by linarith
  have b: "2 powi exponent x \<le> x" "x < 2 powi (exponent x + 1)"
    using exponent_bounds [OF pos] by simp_all
  have "\<not> exponent x < e"
  proof
    assume "exponent x < e"
    then have "exponent x + 1 \<le> e" by simp
    then have "(2::rat) powi (exponent x + 1) \<le> 2 powi e"
      by (rule power_int_increasing) simp
    with b(2) assms(1) show False by linarith
  qed
  moreover have "\<not> e < exponent x"
  proof
    assume "e < exponent x"
    then have "e + 1 \<le> exponent x" by simp
    then have "(2::rat) powi (e + 1) \<le> 2 powi exponent x"
      by (rule power_int_increasing) simp
    with b(1) assms(2) show False by linarith
  qed
  ultimately show ?thesis by linarith
qed

lemma roundEven_near:
  assumes "rat_of_int m - 1 / 2 < y" and "y < rat_of_int m + 1 / 2"
  shows "roundEven y = m"
proof -
  have "\<lfloor>y\<rfloor> = m \<or> \<lfloor>y\<rfloor> = m - 1"
    using assms by linarith
  then show ?thesis
  proof
    assume f: "\<lfloor>y\<rfloor> = m"
    then have "y - rat_of_int \<lfloor>y\<rfloor> < 1 / 2" using assms by simp
    then show ?thesis using f by (simp add: roundEven_def Let_def)
  next
    assume f: "\<lfloor>y\<rfloor> = m - 1"
    then have "1 / 2 < y - rat_of_int \<lfloor>y\<rfloor>" using assms by simp
    then show ?thesis using f by (simp add: roundEven_def Let_def)
  qed
qed

text \<open>Evaluating a rounding in the normal range, away from a tie.\<close>

lemma roundDouble_normal:
  assumes "2 powi e \<le> x" and "x < 2 powi (e + 1)" and "- 1022 \<le> e" and "e \<le> 1022"
    and "rat_of_int m - 1 / 2 < x / 2 powi (e - 52)"
    and "x / 2 powi (e - 52) < rat_of_int m + 1 / 2"
  shows "roundDouble x = Fin (rat_of_int m * 2 powi (e - 52))"
proof -
  have "(0::rat) < 2 powi e" by simp
  with assms(1) have pos: "0 < x" by linarith
  have ex: "exponent x = e" using assms(1,2) by (rule exponent_unique)
  have u: "max (e - 52) (- 1074) = e - 52" using assms(3) by simp
  have m: "roundEven (x / 2 powi (e - 52)) = m" using assms(5,6) by (rule roundEven_near)
  have "x / 2 powi (e - 52) < 2 powi (e + 1) / 2 powi (e - 52)"
    using assms(2) by (simp add: divide_strict_right_mono)
  also have "\<dots> = 2 powi 53"
    by (simp flip: power_int_diff)
  finally have "rat_of_int m - 1 / 2 < 2 powi 53" using assms(5) by linarith
  then have "rat_of_int m < rat_of_int (2 ^ 53 + 1)" by simp
  then have "m < 2 ^ 53 + 1" by (simp only: of_int_less_iff)
  then have "m \<le> 2 ^ 53" by simp
  then have "rat_of_int m \<le> rat_of_int (2 ^ 53)" by (simp only: of_int_le_iff)
  then have m53: "rat_of_int m \<le> 2 powi 53" by simp
  have e1: "(2::rat) powi 53 * 2 powi (e - 52) = 2 powi (e + 1)"
  proof -
    have "(2::rat) powi (e + 1) = 2 powi (53 + (e - 52))"
      by (rule arg_cong [where f = "\<lambda>k. 2 powi k"]) simp
    also have "\<dots> = 2 powi 53 * 2 powi (e - 52)"
      by (rule power_int_add) simp
    finally show ?thesis by (rule sym)
  qed
  have "rat_of_int m * 2 powi (e - 52) \<le> 2 powi 53 * 2 powi (e - 52)"
    using m53 by (rule mult_right_mono) simp
  also note e1
  also have "(2::rat) powi (e + 1) < 2 powi 1024"
    by (rule power_int_strict_increasing) (use assms(4) in simp_all)
  finally have small: "\<not> 2 powi 1024 \<le> rat_of_int m * 2 powi (e - 52)" by simp
  show ?thesis
    using pos small by (simp add: roundDouble_def Let_def abs_of_pos ex u m)
qed

text \<open>The doubles of the literals 0.1 and 1.1, as used in \<open>decimalState\<close>.\<close>

lemma roundDouble_decimal:
  "roundDouble (1 / 10) = Fin (3602879701896397 / 36028797018963968)
   \<and> roundDouble (11 / 10) = Fin (2476979795053773 / 2251799813685248)"
  using roundDouble_normal [of "-4" "1 / 10" 7205759403792794]
    roundDouble_normal [of 0 "11 / 10" 4953959590107546]
  by (simp add: power_int_minus)

text \<open>The five additions of doubles that the totals of \<open>decimalState\<close> take.\<close>

lemma add_a: "js_add (Fin 0) (Fin (3602879701896397 / 36028797018963968))
                = Fin (3602879701896397 / 36028797018963968)"
  using roundDouble_normal [of "-4" "3602879701896397 / 36028797018963968" 7205759403792794]
  by (simp add: power_int_minus)

lemma add_b: "js_add (Fin (3602879701896397 / 36028797018963968))
                 (Fin (2476979795053773 / 2251799813685248))
                = Fin (1351079888211149 / 1125899906842624)"
  using roundDouble_normal [of 0 "43234556422756765 / 36028797018963968" 5404319552844596]
  by (simp add: power_int_minus)

lemma add_c: "js_add (Fin (1351079888211149 / 1125899906842624))
                 (Fin (3602879701896397 / 36028797018963968))
                = Fin (2927339757790823 / 2251799813685248)"
  using roundDouble_normal [of 0 "46837436124653165 / 36028797018963968" 5854679515581646]
  by (simp add: power_int_minus)

lemma add_d: "js_add (Fin (3602879701896397 / 36028797018963968))
                 (Fin (3602879701896397 / 36028797018963968))
                = Fin (3602879701896397 / 18014398509481984)"
  using roundDouble_normal [of "-3" "3602879701896397 / 18014398509481984" 7205759403792794]
  by (simp add: power_int_minus)

lemma add_e: "js_add (Fin (3602879701896397 / 18014398509481984))
                 (Fin (2476979795053773 / 2251799813685248))
                = Fin (5854679515581645 / 4503599627370496)"
  using roundDouble_normal [of 0 "23418718062326581 / 18014398509481984" 5854679515581645]
  by (simp add: power_int_minus)

lemmas adds = add_a add_b add_c add_d add_e

section \<open>The per-month assignment and the totals\<close>

lemma amount_withPaycheck: "amount (withPaycheck pdc y m e) = amount e"
  by (simp add: withPaycheck_def)

lemma dueDay_withPaycheck: "dueDay (withPaycheck pdc y m e) = dueDay e"
  by (simp add: withPaycheck_def)

lemma paycheck_withPaycheck:
  "paycheck (withPaycheck pdc y m e) = assignToPaycheck (dueDay e) (fst pdc) (snd pdc) y m"
  by (simp add: withPaycheck_def)

lemma paycheck_one_or_two:
  "(paycheck (withPaycheck pdc y m e) = Some 1) \<noteq> (paycheck (withPaycheck pdc y m e) = Some 2)"
  using assignToPaycheck_total [of "dueDay e" "fst pdc" "snd pdc" y m]
  by (auto simp: paycheck_withPaycheck)

lemma assigned_one_or_two:
  "\<forall>a \<in> set (assigned s y m). (paycheck a = Some 1) \<noteq> (paycheck a = Some 2)"
  unfolding assigned_def using paycheck_one_or_two by fastforce

lemma amount_assigned: "map amount (assigned s y m) = map amount (expenses s)"
  by (simp add: assigned_def amount_withPaycheck)

text \<open>The due day of an expense reaches the decision as it is stored.\<close>

lemma dueDay_assigned: "map dueDay (assigned s y m) = map dueDay (expenses s)"
  by (simp add: assigned_def dueDay_withPaycheck)

lemma paycheck_assigned:
  "map paycheck (assigned s y m)
     = map (\<lambda>e. assignToPaycheck (dueDay e) (fst (paycheckDaysClamped (income s) y m))
                  (snd (paycheckDaysClamped (income s) y m)) y m) (expenses s)"
  by (simp add: assigned_def paycheck_withPaycheck)

text \<open>
  Claim C3. In the per-month assignment the due day of an expense is clamped to the
  length of the viewed month before the paycheck decision, as the type definition of
  \<open>Expense\<close> says (\<open>dueDay: 1..31 (use last day when shorter)\<close>). The code does not do
  it. With paydays 1 and 30 in February 2023 the second payday is clamped to 28; the
  expense due on day 30 keeps its day 30 and is assigned to paycheck 2, whereas the
  decision on the clamped day 28 is paycheck 1.
\<close>

theorem assigned_dueDay_unclamped:
  "paycheckDaysClamped (income februaryState) 2023 1 = (1, 28)
   \<and> map dueDay (assigned februaryState 2023 1) = [30]
   \<and> map paycheck (assigned februaryState 2023 1) = [Some 2]
   \<and> clampDay 30 2023 1 = 28
   \<and> assignToPaycheck (clampDay 30 2023 1) 1 28 2023 1 = Some 1"
  by (simp add: februaryState_def assigned_def withPaycheck_def paycheckDaysClamped_def
      assignToPaycheck_def clampDay_def getDaysInMonth_feb_2023)

text \<open>
  With the paydays 1 and 16 of the scenario of the specification, the expense due on
  day 30 is assigned to paycheck 2, and the decision on the clamped day 28 is
  paycheck 2 as well: the second payday is 16, not 28.
\<close>

lemma assigned_february_1_16:
  "paycheckDays (income exampleState) = (1, 16)
   \<and> map dueDay (assigned exampleState 2023 1) = [1, 10, 30]
   \<and> map paycheck (assigned exampleState 2023 1) = [Some 2, Some 1, Some 2]
   \<and> assignToPaycheck (clampDay 30 2023 1) 1 16 2023 1 = Some 2"
  by (simp add: exampleState_def assigned_def withPaycheck_def paycheckDaysClamped_def
      assignToPaycheck_def clampDay_def getDaysInMonth_feb_2023)

lemma sum_list_split:
  assumes "\<forall>x \<in> set xs. P x \<noteq> Q x"
  shows "sum_list (map g (filter P xs)) + sum_list (map g (filter Q xs))
           = (sum_list (map g xs) :: rat)"
  using assms by (induction xs) auto

lemma length_split:
  assumes "\<forall>x \<in> set xs. P x \<noteq> Q x"
  shows "length (filter P xs) + length (filter Q xs) = length xs"
  using assms by (induction xs) auto

lemma wholeAmount_Fin: "wholeAmount a \<Longrightarrow> \<exists>k. 0 \<le> k \<and> a = Fin (rat_of_int k)"
proof (cases a)
  case (Fin q)
  assume "wholeAmount a"
  with Fin have w: "rat_of_int \<lfloor>q\<rfloor> = q" and "0 \<le> q"
    by (simp_all only: wholeAmount_def isInteger.simps js_le.simps)
  then have "0 \<le> \<lfloor>q\<rfloor>" by simp
  moreover have "a = Fin (rat_of_int \<lfloor>q\<rfloor>)" using Fin w by (simp only:)
  ultimately show ?thesis by blast
qed (simp_all add: wholeAmount_def)

lemma exactSum_Cons: "exactSum (x # xs) = toRat (amount x) + exactSum xs"
  by (simp add: exactSum_def)

lemma exactSum_whole:
  assumes "\<forall>e \<in> set xs. wholeAmount (amount e)"
  shows "\<exists>k. 0 \<le> k \<and> exactSum xs = rat_of_int k"
  using assms
proof (induction xs)
  case Nil
  have "0 \<le> (0::int) \<and> exactSum [] = rat_of_int 0" by (simp add: exactSum_def)
  then show ?case by blast
next
  case (Cons x xs)
  then obtain k where k: "0 \<le> k" "exactSum xs = rat_of_int k" by auto
  from Cons.prems obtain j where j: "0 \<le> j" "amount x = Fin (rat_of_int j)"
    using wholeAmount_Fin [of "amount x"] by auto
  have "0 \<le> j + k \<and> exactSum (x # xs) = rat_of_int (j + k)"
    using k j by (simp add: exactSum_Cons)
  then show ?case by blast
qed

text \<open>
  The reduce of the code over whole amounts: as long as the exact sum stays within
  \<open>2^53\<close>, no addition rounds.
\<close>

lemma foldl_whole:
  assumes "\<forall>e \<in> set xs. wholeAmount (amount e)"
    and "0 \<le> t" and "rat_of_int t + exactSum xs \<le> 2 ^ 53"
  shows "foldl (\<lambda>s e. js_add s (amount e)) (Fin (rat_of_int t)) xs
           = Fin (rat_of_int t + exactSum xs)"
  using assms
proof (induction xs arbitrary: t)
  case Nil
  then show ?case by (simp add: exactSum_def)
next
  case (Cons x xs)
  from Cons.prems(1) obtain j where j: "0 \<le> j" "amount x = Fin (rat_of_int j)"
    using wholeAmount_Fin [of "amount x"] by auto
  from Cons.prems(1) obtain k where k: "0 \<le> k" "exactSum xs = rat_of_int k"
    using exactSum_whole [of xs] by auto
  have sum: "exactSum (x # xs) = rat_of_int j + exactSum xs"
    using j by (simp add: exactSum_Cons)
  have tj: "rat_of_int (t + j) + exactSum xs \<le> 2 ^ 53"
    using Cons.prems(3) by (simp add: sum)
  have "rat_of_int (t + j) \<le> rat_of_int (t + j) + exactSum xs"
    using k by simp
  with tj have "rat_of_int (t + j) \<le> rat_of_int (2 ^ 53)" by simp
  then have bound: "t + j \<le> 2 ^ 53" by (simp only: of_int_le_iff)
  have pos: "0 \<le> t + j" using Cons.prems(2) j(1) by simp
  have "roundDouble (rat_of_int (t + j)) = Fin (rat_of_int (t + j))"
    using pos bound by (rule roundDouble_whole)
  then have step: "js_add (Fin (rat_of_int t)) (amount x) = Fin (rat_of_int (t + j))"
    by (simp add: j(2))
  have rest: "\<forall>e \<in> set xs. wholeAmount (amount e)" using Cons.prems(1) by simp
  have "foldl (\<lambda>s e. js_add s (amount e)) (Fin (rat_of_int (t + j))) xs
          = Fin (rat_of_int (t + j) + exactSum xs)"
    using rest pos tj by (rule Cons.IH)
  then show ?case by (simp add: step sum)
qed

lemma exactSum_filter_le:
  assumes "\<forall>e \<in> set xs. wholeAmount (amount e)"
  shows "exactSum (filter P xs) \<le> exactSum xs"
  using assms
proof (induction xs)
  case Nil
  then show ?case by simp
next
  case (Cons x xs)
  from Cons.prems obtain j where j: "0 \<le> j" "amount x = Fin (rat_of_int j)"
    using wholeAmount_Fin [of "amount x"] by auto
  with Cons show ?case by (simp add: exactSum_Cons)
qed

lemma total_whole:
  assumes "\<forall>e \<in> set xs. wholeAmount (amount e)" and "exactSum xs \<le> 2 ^ 53"
  shows "foldl (\<lambda>s e. js_add s (amount e)) (Fin 0) xs = Fin (exactSum xs)"
  using foldl_whole [of xs 0] assms by simp

text \<open>
  Claim C4, as stated: the total of paycheck 1 plus the total of paycheck 2 is the sum
  of all amounts, for every list of expenses with due days in 1..31. The totals are
  sums of doubles, and each addition rounds. With the amounts 0.1, 0.1 and 1.1 due on
  days 5, 20 and 6 and paydays 1 and 16, the two totals are 1.2000000000000002 and
  0.1 and add up to 1.3000000000000003; adding all amounts in their order gives 1.3,
  and the exact sum of the three doubles is a third value.
\<close>

theorem paycheck_totals_counterexample:
  "map dueDay (expenses decimalState) = [5, 20, 6]
   \<and> map paycheck (assigned decimalState 2025 0) = [Some 1, Some 2, Some 1]
   \<and> p1Total decimalState 2025 0 = Fin (1351079888211149 / 1125899906842624)
   \<and> p2Total decimalState 2025 0 = Fin (3602879701896397 / 36028797018963968)
   \<and> js_add (p1Total decimalState 2025 0) (p2Total decimalState 2025 0)
       = Fin (2927339757790823 / 2251799813685248)
   \<and> foldl (\<lambda>s e. js_add s (amount e)) (Fin 0) (expenses decimalState)
       = Fin (5854679515581645 / 4503599627370496)
   \<and> exactSum (expenses decimalState) = 23418718062326581 / 18014398509481984
   \<and> js_add (p1Total decimalState 2025 0) (p2Total decimalState 2025 0)
       \<noteq> foldl (\<lambda>s e. js_add s (amount e)) (Fin 0) (expenses decimalState)
   \<and> js_add (p1Total decimalState 2025 0) (p2Total decimalState 2025 0)
       \<noteq> Fin (exactSum (expenses decimalState))"
proof -
  have jan: "getDaysInMonth 2025 0 = 31" by (simp add: getDaysInMonth_def)
  have days: "map dueDay (expenses decimalState) = [5, 20, 6]"
    by (simp add: decimalState_def)
  have pay: "map paycheck (assigned decimalState 2025 0) = [Some 1, Some 2, Some 1]"
    by (simp add: decimalState_def assigned_def withPaycheck_def paycheckDaysClamped_def
        assignToPaycheck_def clampDay_def jan)
  have p1: "p1Total decimalState 2025 0 = Fin (1351079888211149 / 1125899906842624)"
    by (simp add: p1Total_def p1Items_def decimalState_def assigned_def withPaycheck_def
        paycheckDaysClamped_def assignToPaycheck_def clampDay_def jan adds del: js_add.simps)
  have p2: "p2Total decimalState 2025 0 = Fin (3602879701896397 / 36028797018963968)"
    by (simp add: p2Total_def p2Items_def decimalState_def assigned_def withPaycheck_def
        paycheckDaysClamped_def assignToPaycheck_def clampDay_def jan adds del: js_add.simps)
  have sum: "js_add (p1Total decimalState 2025 0) (p2Total decimalState 2025 0)
       = Fin (2927339757790823 / 2251799813685248)"
    by (simp only: p1 p2 add_c)
  have all: "foldl (\<lambda>s e. js_add s (amount e)) (Fin 0) (expenses decimalState)
       = Fin (5854679515581645 / 4503599627370496)"
    by (simp add: decimalState_def adds del: js_add.simps)
  have exact: "exactSum (expenses decimalState) = 23418718062326581 / 18014398509481984"
    by (simp add: exactSum_def decimalState_def)
  show ?thesis
    unfolding sum all exact using days pay p1 p2 by simp
qed

text \<open>
  Claim C4, amended. For every list of expenses whose due days lie in 1..31, and every
  payday pair, year and month index, every expense is an item of exactly one of the
  two paychecks, so that the exact sums of the amounts of the two groups add up to
  the exact sum of all amounts. When moreover every amount is a whole number from 0
  on and the exact sum of all amounts is at most \<open>2^53\<close>, no addition of the code
  rounds, and the total of paycheck 1 plus the total of paycheck 2, as the code
  computes them, is the sum of all amounts.
\<close>

theorem paycheck_totals_partition:
  assumes "\<forall>e \<in> set (expenses s). 1 \<le> dueDay e \<and> dueDay e \<le> 31"
  shows "length (p1Items s y m) + length (p2Items s y m) = length (expenses s)
         \<and> (\<forall>a \<in> set (assigned s y m). (paycheck a = Some 1) \<noteq> (paycheck a = Some 2))
         \<and> exactSum (p1Items s y m) + exactSum (p2Items s y m) = exactSum (expenses s)
         \<and> ((\<forall>e \<in> set (expenses s). wholeAmount (amount e)) \<and> exactSum (expenses s) \<le> 2 ^ 53
              \<longrightarrow> js_add (p1Total s y m) (p2Total s y m) = Fin (exactSum (expenses s)))"
proof -
  have count: "length (p1Items s y m) + length (p2Items s y m) = length (assigned s y m)"
    using length_split [OF assigned_one_or_two, of s y m]
    by (simp add: p1Items_def p2Items_def)
  have len: "length (assigned s y m) = length (expenses s)"
    by (simp add: assigned_def)
  have same: "exactSum (assigned s y m) = exactSum (expenses s)"
    by (simp add: exactSum_def assigned_def amount_withPaycheck comp_def)
  have exact: "exactSum (p1Items s y m) + exactSum (p2Items s y m) = exactSum (expenses s)"
    using sum_list_split [OF assigned_one_or_two, of "\<lambda>e. toRat (amount e)" s y m] same
    by (simp add: exactSum_def p1Items_def p2Items_def)
  have totals: "js_add (p1Total s y m) (p2Total s y m) = Fin (exactSum (expenses s))"
    if whole: "\<forall>e \<in> set (expenses s). wholeAmount (amount e)"
      and bound: "exactSum (expenses s) \<le> 2 ^ 53"
  proof -
    have wa: "\<forall>a \<in> set (assigned s y m). wholeAmount (amount a)"
      using whole by (simp add: assigned_def amount_withPaycheck)
    then have w1: "\<forall>a \<in> set (p1Items s y m). wholeAmount (amount a)"
      and w2: "\<forall>a \<in> set (p2Items s y m). wholeAmount (amount a)"
      by (simp_all add: p1Items_def p2Items_def)
    have b1: "exactSum (p1Items s y m) \<le> 2 ^ 53"
      using exactSum_filter_le [OF wa, of "\<lambda>e. paycheck e = Some 1"] same bound
      by (simp add: p1Items_def)
    have b2: "exactSum (p2Items s y m) \<le> 2 ^ 53"
      using exactSum_filter_le [OF wa, of "\<lambda>e. paycheck e = Some 2"] same bound
      by (simp add: p2Items_def)
    have t1: "p1Total s y m = Fin (exactSum (p1Items s y m))"
      unfolding p1Total_def by (rule total_whole [OF w1 b1])
    have t2: "p2Total s y m = Fin (exactSum (p2Items s y m))"
      unfolding p2Total_def by (rule total_whole [OF w2 b2])
    obtain k1 where k1: "0 \<le> k1" "exactSum (p1Items s y m) = rat_of_int k1"
      using exactSum_whole [OF w1] by auto
    obtain k2 where k2: "0 \<le> k2" "exactSum (p2Items s y m) = rat_of_int k2"
      using exactSum_whole [OF w2] by auto
    have e12: "exactSum (expenses s) = rat_of_int (k1 + k2)"
      using exact k1(2) k2(2) by simp
    then have "rat_of_int (k1 + k2) \<le> rat_of_int (2 ^ 53)"
      using bound by simp
    then have "k1 + k2 \<le> 2 ^ 53" by (simp only: of_int_le_iff)
    moreover have "0 \<le> k1 + k2" using k1(1) k2(1) by simp
    ultimately have "roundDouble (rat_of_int (k1 + k2)) = Fin (rat_of_int (k1 + k2))"
      by (simp only: roundDouble_whole)
    then have "js_add (Fin (rat_of_int k1)) (Fin (rat_of_int k2)) = Fin (rat_of_int (k1 + k2))"
      by simp
    then show ?thesis
      by (simp only: t1 t2 k1(2) k2(2) e12)
  qed
  from count len assigned_one_or_two [of s y m] exact totals show ?thesis
    by simp
qed

theorem paycheck_totals_partition_witness:
  "length (p1Items exampleState 2023 1) + length (p2Items exampleState 2023 1) = 3
   \<and> exactSum (p1Items exampleState 2023 1) + exactSum (p2Items exampleState 2023 1) = 12600
   \<and> js_add (p1Total exampleState 2023 1) (p2Total exampleState 2023 1) = Fin 12600"
proof -
  have days: "\<forall>e \<in> set (expenses exampleState). 1 \<le> dueDay e \<and> dueDay e \<le> 31"
    by (simp add: exampleState_def)
  have whole: "\<forall>e \<in> set (expenses exampleState). wholeAmount (amount e)"
    by (simp add: exampleState_def wholeAmount_def)
  have all: "exactSum (expenses exampleState) = 12600" "length (expenses exampleState) = 3"
    by (simp_all add: exampleState_def exactSum_def)
  have bound: "exactSum (expenses exampleState) \<le> 2 ^ 53"
    by (simp add: all)
  show ?thesis
    using paycheck_totals_partition [OF days, of 2023 1] whole bound all by simp
qed

section \<open>Loading and importing\<close>

text \<open>The two shape tests of \<open>loadState\<close>, as one case distinction on the parsed value.\<close>

lemma shape_check_load:
  "(case getProp v ''income'' of
      Inl err \<Rightarrow> Inl err
    | Inr inc \<Rightarrow>
        if \<not> truthyProp inc then Inl (Error ''invalid'')
        else (case getProp v ''expenses'' of
                Inl err \<Rightarrow> Inl err
              | Inr ex \<Rightarrow> if \<not> isArray ex then Inl (Error ''invalid'') else Inr v))
   = (if requiredShape v then Inr v
      else if v = JNull then Inl TypeError else Inl (Error ''invalid''))"
proof (cases v)
  case (JObj fs)
  show ?thesis
  proof (cases "map_of fs ''income''")
    case None
    with JObj show ?thesis by simp
  next
    case (Some i)
    show ?thesis
    proof (cases "map_of fs ''expenses''")
      case None
      with JObj Some show ?thesis by simp
    next
      case (Some ex)
      with JObj \<open>map_of fs ''income'' = Some i\<close> show ?thesis
        by (cases ex) simp_all
    qed
  qed
qed simp_all

lemma loadState_try_Document:
  "ls STORAGE_KEY = Some (Document v) \<Longrightarrow>
   loadState_try ls = (if requiredShape v then Inr v
      else if v = JNull then Inl TypeError else Inl (Error ''invalid''))"
  by (simp add: loadState_try_def shape_check_load)

lemma loadState_absent: "ls STORAGE_KEY = None \<Longrightarrow> loadState ls uid = defaultState uid"
  by (simp add: loadState_def loadState_try_def)

lemma loadState_unparsable:
  "ls STORAGE_KEY = Some t \<Longrightarrow> JSON_parse t = Inl e \<Longrightarrow> loadState ls uid = defaultState uid"
  by (cases t) (simp_all add: loadState_def loadState_try_def)

lemma loadState_parsed:
  "ls STORAGE_KEY = Some t \<Longrightarrow> JSON_parse t = Inr v \<Longrightarrow>
   loadState ls uid = (if requiredShape v then v else defaultState uid)"
  by (cases t) (simp_all add: loadState_def loadState_try_Document)

text \<open>
  Claim C6. \<open>loadState\<close> returns a value for every content of the storage key, every
  exception of its body being caught: when the key is absent, when the stored text
  does not parse, and when it parses to a value without a truthy \<open>income\<close> or without
  an array \<open>expenses\<close>, the result is the default dataset (with the ids that \<open>uid\<close>
  draws); when the text parses to a value of the required shape, the result is that
  value, unchanged.
\<close>

theorem loadState_fallback:
  "(ls STORAGE_KEY = None \<longrightarrow> loadState ls uid = defaultState uid)
   \<and> (ls STORAGE_KEY = Some t \<and> JSON_parse t = Inl e \<longrightarrow> loadState ls uid = defaultState uid)
   \<and> (ls STORAGE_KEY = Some t \<and> JSON_parse t = Inr v \<and> \<not> requiredShape v
        \<longrightarrow> loadState ls uid = defaultState uid)
   \<and> (ls STORAGE_KEY = Some t \<and> JSON_parse t = Inr v \<and> requiredShape v
        \<longrightarrow> loadState ls uid = v)"
  using loadState_absent [of ls uid] loadState_unparsable [of ls t e uid]
    loadState_parsed [of ls t v uid]
  by simp

theorem loadState_fallback_witness:
  "loadState Map.empty (\<lambda>k. ''k3f9x2a'') = defaultState (\<lambda>k. ''k3f9x2a'')
   \<and> loadState [STORAGE_KEY \<mapsto> Malformed] (\<lambda>k. ''k3f9x2a'') = defaultState (\<lambda>k. ''k3f9x2a'')
   \<and> loadState [STORAGE_KEY \<mapsto> Document JNull] (\<lambda>k. ''k3f9x2a'')
       = defaultState (\<lambda>k. ''k3f9x2a'')
   \<and> loadState [STORAGE_KEY \<mapsto> Document overflowState] (\<lambda>k. ''k3f9x2a'') = overflowState"
proof -
  have shape: "requiredShape overflowState"
    by (simp add: overflowState_def)
  have a: "loadState Map.empty (\<lambda>k. ''k3f9x2a'') = defaultState (\<lambda>k. ''k3f9x2a'')"
    using loadState_fallback [of Map.empty "\<lambda>k. ''k3f9x2a''"] by simp
  have b: "loadState [STORAGE_KEY \<mapsto> Malformed] (\<lambda>k. ''k3f9x2a'')
             = defaultState (\<lambda>k. ''k3f9x2a'')"
    using loadState_fallback [of "[STORAGE_KEY \<mapsto> Malformed]" "\<lambda>k. ''k3f9x2a''" Malformed
        SyntaxError]
    by simp
  have c: "loadState [STORAGE_KEY \<mapsto> Document JNull] (\<lambda>k. ''k3f9x2a'')
             = defaultState (\<lambda>k. ''k3f9x2a'')"
    using loadState_fallback [of "[STORAGE_KEY \<mapsto> Document JNull]" "\<lambda>k. ''k3f9x2a''"
        "Document JNull" _ JNull]
    by simp
  have d: "loadState [STORAGE_KEY \<mapsto> Document overflowState] (\<lambda>k. ''k3f9x2a'')
             = overflowState"
    using loadState_fallback [of "[STORAGE_KEY \<mapsto> Document overflowState]"
        "\<lambda>k. ''k3f9x2a''" "Document overflowState" _ overflowState] shape
    by simp
  from a b c d show ?thesis by blast
qed

lemma onImport_try_Document:
  "onImport_try (Document v)
     = (if requiredShape v then Inr v else Inl (Error ''Invalid file''))"
proof (cases v)
  case (JObj fs)
  show ?thesis
  proof (cases "map_of fs ''income''")
    case None
    with JObj show ?thesis by (simp add: onImport_try_def)
  next
    case (Some i)
    show ?thesis
    proof (cases "map_of fs ''expenses''")
      case None
      with JObj Some show ?thesis by (simp add: onImport_try_def)
    next
      case (Some ex)
      with JObj \<open>map_of fs ''income'' = Some i\<close> show ?thesis
        by (cases ex) (simp_all add: onImport_try_def)
    qed
  qed
qed (simp_all add: onImport_try_def)

lemma onImport_unparsable:
  "JSON_parse t = Inl e \<Longrightarrow> onImport (Some t) s = (s, Some e)"
  by (simp add: onImport_def onImport_try_def)

lemma onImport_parsed:
  "JSON_parse t = Inr v \<Longrightarrow>
   onImport (Some t) s
     = (if requiredShape v then (v, None) else (s, Some (Error ''Invalid file'')))"
  by (cases t) (simp_all add: onImport_def onImport_try_Document)

text \<open>
  Claim C7. Import is all-or-nothing. For every text that does not parse, and for
  every text that parses to a value without a truthy \<open>income\<close> or without an array
  \<open>expenses\<close>, the import is rejected with an error and the state afterwards is the
  state before; for every text that parses to a value of the required shape, the
  parsed value as a whole is the new state.
\<close>

theorem onImport_all_or_nothing:
  "(JSON_parse t = Inl e \<longrightarrow> onImport (Some t) s = (s, Some e))
   \<and> (JSON_parse t = Inr v \<and> \<not> requiredShape v
        \<longrightarrow> onImport (Some t) s = (s, Some (Error ''Invalid file'')))
   \<and> (JSON_parse t = Inr v \<and> requiredShape v \<longrightarrow> onImport (Some t) s = (v, None))"
  using onImport_unparsable [of t e s] onImport_parsed [of t v s] by simp

theorem onImport_all_or_nothing_witness:
  "onImport (Some Malformed) (jsState exampleState) = (jsState exampleState, Some SyntaxError)
   \<and> onImport (Some (Document (JObj [(''income'', JBool True)]))) (jsState exampleState)
       = (jsState exampleState, Some (Error ''Invalid file''))
   \<and> onImport (Some (Document overflowState)) (jsState exampleState) = (overflowState, None)"
proof -
  have shape: "requiredShape overflowState"
    by (simp add: overflowState_def)
  have a: "onImport (Some Malformed) (jsState exampleState)
             = (jsState exampleState, Some SyntaxError)"
    using onImport_all_or_nothing [of Malformed SyntaxError "jsState exampleState"] by simp
  have b: "onImport (Some (Document (JObj [(''income'', JBool True)]))) (jsState exampleState)
       = (jsState exampleState, Some (Error ''Invalid file''))"
    using onImport_all_or_nothing [of "Document (JObj [(''income'', JBool True)])" _
        "jsState exampleState" "JObj [(''income'', JBool True)]"]
    by simp
  have c: "onImport (Some (Document overflowState)) (jsState exampleState)
             = (overflowState, None)"
    using onImport_all_or_nothing [of "Document overflowState" _ "jsState exampleState"
        overflowState] shape
    by simp
  from a b c show ?thesis by blast
qed

section \<open>Saving and loading again\<close>

lemma serialized_id: "finiteNumbers v \<Longrightarrow> serialized v = v"
proof (induction v)
  case (JArr vs)
  then show ?case by (simp add: list_all_iff map_idI)
next
  case (JObj fs)
  then show ?case by (auto simp add: list_all_iff intro!: map_idI)
qed simp_all

lemma wellFormedIncome_truthy: "wellFormedIncome i \<Longrightarrow> truthy i"
  by (cases i) simp_all

lemma wellFormedState_shape: "wellFormedState v \<Longrightarrow> requiredShape v"
  by (cases v) (auto split: option.splits jsval.splits simp: wellFormedIncome_truthy)

lemma load_save:
  "loadState (saveState v ls) uid
     = (if requiredShape (serialized v) then serialized v else defaultState uid)"
  by (simp add: loadState_def saveState_def JSON_stringify_def loadState_try_Document)

lemma wellFormed_jsState: "wellFormedState (jsState s)"
  by (simp add: jsState_def jsIncome_def jsExpense_def list_all_iff)

lemma finiteNumbers_jsState:
  assumes "isFinite (netPerPaycheck (income s))" and "isFinite (extras (income s))"
    and "\<forall>e \<in> set (expenses s). isFinite (amount e)"
  shows "finiteNumbers (jsState s)"
  using assms by (simp add: jsState_def jsIncome_def jsExpense_def list_all_iff)

lemma finiteNumbers_exampleState: "finiteNumbers (jsState exampleState)"
  by (rule finiteNumbers_jsState) (simp_all add: exampleState_def)

text \<open>Every typed budget state with finite numbers is loaded back as it was saved.\<close>

lemma load_save_typed:
  assumes "isFinite (netPerPaycheck (income s))" and "isFinite (extras (income s))"
    and "\<forall>e \<in> set (expenses s). isFinite (amount e)"
  shows "loadState (saveState (jsState s) ls) uid = jsState s"
  using wellFormed_jsState [of s] finiteNumbers_jsState [OF assms]
  by (simp add: load_save serialized_id wellFormedState_shape)

text \<open>
  Claim C8, as stated: loading after saving returns the saved state, for every
  well-formed state. This fails for a well-formed state with a number that is not
  finite: the amount \<open>Infinity\<close> is written as \<open>null\<close>.
\<close>

theorem load_save_counterexample:
  "wellFormedState overflowState
   \<and> loadState (saveState overflowState Map.empty) (\<lambda>k. ''k3f9x2a'') \<noteq> overflowState"
  by (simp add: load_save) (simp add: overflowState_def)

text \<open>
  Claim C8, amended. For every well-formed budget state whose numbers are all finite,
  \<open>loadState\<close> after \<open>saveState\<close> returns a state equal to the saved one.
\<close>

theorem load_save_roundtrip:
  assumes "wellFormedState v" and "finiteNumbers v"
  shows "loadState (saveState v ls) uid = v"
  using assms by (simp add: load_save serialized_id wellFormedState_shape)

theorem load_save_roundtrip_witness:
  "loadState (saveState (jsState exampleState) Map.empty) (\<lambda>k. ''k3f9x2a'')
     = jsState exampleState"
  using load_save_roundtrip [of "jsState exampleState" Map.empty "\<lambda>k. ''k3f9x2a''"]
    wellFormed_jsState [of exampleState] finiteNumbers_exampleState
  by blast

section \<open>The invariant of the expense collection\<close>

lemma isInteger_Fin: "isInteger d \<Longrightarrow> d = Fin (rat_of_int (toInt d))"
  by (cases d) auto

lemma submit_refused:
  "n = [] \<or> \<not> isFinite a \<or> js_le a (Fin 0) \<or> \<not> isInteger d \<Longrightarrow>
   submit n a d cat newId s = s"
  by (auto simp: submit_def)

lemma submit_accepted:
  "n \<noteq> [] \<Longrightarrow> isFinite a \<Longrightarrow> \<not> js_le a (Fin 0) \<Longrightarrow> isInteger d \<Longrightarrow>
   submit n a d cat newId s
     = s\<lparr>expenses := expenses s @ [\<lparr>id_exp = newId, name = n, amount = a, dueDay = toInt d,
                                    category = cat\<rparr>]\<rparr>"
  by (simp add: submit_def addExpense_def)

lemma positive_amount: "isFinite a \<Longrightarrow> \<not> js_le a (Fin 0) \<Longrightarrow> js_lt (Fin 0) a"
  by (cases a) simp_all

lemma day_in_range:
  "isInteger d \<Longrightarrow> js_le (Fin 1) d \<Longrightarrow> js_le d (Fin 31) \<Longrightarrow> 1 \<le> toInt d \<and> toInt d \<le> 31"
proof (cases d)
  case (Fin q)
  assume "isInteger d" "js_le (Fin 1) d" "js_le d (Fin 31)"
  with Fin have "1 \<le> q" "q \<le> 31" by simp_all
  then have "1 \<le> \<lfloor>q\<rfloor>" "\<lfloor>q\<rfloor> \<le> 31" by linarith+
  with Fin show ?thesis by simp
qed simp_all

lemma exampleState_invariant: "expense_invariant exampleState"
  by (simp add: expense_invariant_def exampleState_def)

text \<open>
  Claim C9, as stated: every add that passes the validation of \<open>submit\<close> (non-empty
  name, finite positive amount, integer due day) preserves the invariant. The
  validation does not bound the due day, and the id that \<open>uid()\<close> draws is not compared
  with the stored ids: from the example state, which satisfies the invariant, an add
  with due day 45 and an add whose id is the id of the stored rent are both accepted,
  and the invariant fails afterwards.
\<close>

theorem submit_invariant_counterexample:
  "expense_invariant exampleState
   \<and> ''Gym'' \<noteq> [] \<and> isFinite (Fin 500) \<and> \<not> js_le (Fin 500) (Fin 0)
   \<and> isInteger (Fin 45) \<and> isInteger (Fin 5)
   \<and> \<not> expense_invariant
         (submit ''Gym'' (Fin 500) (Fin 45) ''variable'' ''z9y8x7w'' exampleState)
   \<and> \<not> expense_invariant
         (submit ''Gym'' (Fin 500) (Fin 5) ''variable'' ''k3f9x2a'' exampleState)"
  by (simp add: exampleState_invariant submit_def addExpense_def)
     (simp add: expense_invariant_def exampleState_def)

text \<open>
  Claim C9, amended. From a state that satisfies the invariant: an add that fails the
  validation (empty trimmed name, amount not finite or not positive, due day not an
  integer) leaves the state as it is; an add that passes it with a due day in 1..31
  appends exactly the new record, with the entered name, amount, due day and
  category and the drawn id; and when moreover the drawn id is not the id of a stored
  expense, the state afterwards satisfies the invariant.
\<close>

theorem submit_invariant:
  assumes "expense_invariant s"
  shows "(n = [] \<or> \<not> isFinite a \<or> js_le a (Fin 0) \<or> \<not> isInteger d
            \<longrightarrow> submit n a d cat newId s = s)
   \<and> (n \<noteq> [] \<and> isFinite a \<and> \<not> js_le a (Fin 0) \<and> isInteger d
        \<and> js_le (Fin 1) d \<and> js_le d (Fin 31)
        \<longrightarrow> submit n a d cat newId s
              = s\<lparr>expenses := expenses s @ [\<lparr>id_exp = newId, name = n, amount = a,
                                             dueDay = toInt d, category = cat\<rparr>]\<rparr>
            \<and> d = Fin (rat_of_int (toInt d)))
   \<and> (n \<noteq> [] \<and> isFinite a \<and> \<not> js_le a (Fin 0) \<and> isInteger d
        \<and> js_le (Fin 1) d \<and> js_le d (Fin 31) \<and> newId \<notin> set (map id_exp (expenses s))
        \<longrightarrow> expense_invariant (submit n a d cat newId s))"
proof (intro conjI impI)
  assume "n = [] \<or> \<not> isFinite a \<or> js_le a (Fin 0) \<or> \<not> isInteger d"
  then show "submit n a d cat newId s = s" by (rule submit_refused)
next
  assume v: "n \<noteq> [] \<and> isFinite a \<and> \<not> js_le a (Fin 0) \<and> isInteger d
        \<and> js_le (Fin 1) d \<and> js_le d (Fin 31)"
  then show "submit n a d cat newId s
              = s\<lparr>expenses := expenses s @ [\<lparr>id_exp = newId, name = n, amount = a,
                                             dueDay = toInt d, category = cat\<rparr>]\<rparr>"
    by (simp add: submit_accepted)
  from v show "d = Fin (rat_of_int (toInt d))" by (simp add: isInteger_Fin)
next
  assume v: "n \<noteq> [] \<and> isFinite a \<and> \<not> js_le a (Fin 0) \<and> isInteger d
        \<and> js_le (Fin 1) d \<and> js_le d (Fin 31) \<and> newId \<notin> set (map id_exp (expenses s))"
  then have "1 \<le> toInt d \<and> toInt d \<le> 31" "js_lt (Fin 0) a"
    by (simp_all add: day_in_range positive_amount)
  with v assms show "expense_invariant (submit n a d cat newId s)"
    by (auto simp: submit_accepted expense_invariant_def)
qed

theorem submit_invariant_witness:
  "expense_invariant (submit ''Gym'' (Fin 500) (Fin 5) ''variable'' ''z9y8x7w'' exampleState)
   \<and> submit [] (Fin 500) (Fin 5) ''variable'' ''z9y8x7w'' exampleState = exampleState
   \<and> submit ''Gym'' NaN (Fin 5) ''variable'' ''z9y8x7w'' exampleState = exampleState
   \<and> expenses (submit ''Gym'' (Fin 500) (Fin 5) ''variable'' ''z9y8x7w'' exampleState)
       = expenses exampleState
           @ [\<lparr>id_exp = ''z9y8x7w'', name = ''Gym'', amount = Fin 500, dueDay = 5,
               category = ''variable''\<rparr>]"
proof -
  have fresh: "''z9y8x7w'' \<notin> set (map id_exp (expenses exampleState))"
    by (simp add: exampleState_def)
  have valid: "''Gym'' \<noteq> [] \<and> isFinite (Fin 500) \<and> \<not> js_le (Fin 500) (Fin 0)
      \<and> isInteger (Fin 5) \<and> js_le (Fin 1) (Fin 5) \<and> js_le (Fin 5) (Fin 31)"
    by simp
  have a: "expense_invariant
             (submit ''Gym'' (Fin 500) (Fin 5) ''variable'' ''z9y8x7w'' exampleState)"
    using submit_invariant [OF exampleState_invariant, of "''Gym''" "Fin 500" "Fin 5"
        "''variable''" "''z9y8x7w''"] valid fresh
    by blast
  have b: "submit [] (Fin 500) (Fin 5) ''variable'' ''z9y8x7w'' exampleState = exampleState"
    using submit_invariant [OF exampleState_invariant, of "[]" "Fin 500" "Fin 5"
        "''variable''" "''z9y8x7w''"]
    by blast
  have nan: "\<not> isFinite NaN" by simp
  have c: "submit ''Gym'' NaN (Fin 5) ''variable'' ''z9y8x7w'' exampleState = exampleState"
    using submit_invariant [OF exampleState_invariant, of "''Gym''" NaN "Fin 5"
        "''variable''" "''z9y8x7w''"] nan
    by blast
  have "submit ''Gym'' (Fin 500) (Fin 5) ''variable'' ''z9y8x7w'' exampleState
          = exampleState\<lparr>expenses := expenses exampleState
              @ [\<lparr>id_exp = ''z9y8x7w'', name = ''Gym'', amount = Fin 500,
                  dueDay = toInt (Fin 5), category = ''variable''\<rparr>]\<rparr>"
    using submit_invariant [OF exampleState_invariant, of "''Gym''" "Fin 500" "Fin 5"
        "''variable''" "''z9y8x7w''"] valid
    by blast
  then have d: "expenses
                  (submit ''Gym'' (Fin 500) (Fin 5) ''variable'' ''z9y8x7w'' exampleState)
       = expenses exampleState
           @ [\<lparr>id_exp = ''z9y8x7w'', name = ''Gym'', amount = Fin 500, dueDay = 5,
               category = ''variable''\<rparr>]"
    by simp
  from a b c d show ?thesis by blast
qed

end
